theory Spec2Isabelle
  imports Complex_Main "HOL-Library.Sublist"
begin

section \<open>Python strings and integers\<close>

text \<open>
  A Python \<^verbatim>\<open>str\<close> is a HOL \<^typ>\<open>string\<close> holding its text in UTF-8: a character of ASCII is
  one \<^typ>\<open>char\<close>, any other character is the two to four bytes of its encoding. On that
  encoding the prefix and suffix tests, the split at an ASCII character and the replacement
  of one ASCII character by another are the list operations below, for every text.

  Three operations depend on the character tables of the Python runtime and are not
  defined here: \<^verbatim>\<open>str.isdigit\<close>, \<^verbatim>\<open>int(str)\<close> and \<^verbatim>\<open>str.lower\<close>. The program takes them
  from its runtime, see \<open>Env\<close> and \<open>Library\<close>; what is proved holds whatever they are.
  Python's \<^verbatim>\<open>int\<close> is unbounded, so it is \<^typ>\<open>int\<close>.
\<close>

definition digit_char :: "nat \<Rightarrow> char" where
  "digit_char d = ''0123456789'' ! d"

text \<open>\<^verbatim>\<open>str(n)\<close> for a non-negative \<^verbatim>\<open>n\<close>: the decimal digits, most significant first.\<close>

fun str_nat :: "nat \<Rightarrow> string" where
  "str_nat n = (if n < 10 then [digit_char n] else str_nat (n div 10) @ [digit_char (n mod 10)])"

declare str_nat.simps [simp del]

text \<open>\<^verbatim>\<open>str(n)\<close> for any \<^verbatim>\<open>int\<close>: a minus sign before the digits of a negative number.\<close>

definition str_int :: "int \<Rightarrow> string" where
  "str_int n = (if n < 0 then CHR ''-'' # str_nat (nat (- n)) else str_nat (nat n))"

text \<open>\<^verbatim>\<open>s.split("_")[0]\<close>: the text before the first underscore, all of \<^verbatim>\<open>s\<close> when it has none.\<close>

definition split_first :: "string \<Rightarrow> string" where
  "split_first s = takeWhile (\<lambda>c. c \<noteq> CHR ''_'') s"

text \<open>\<^verbatim>\<open>s.startswith(p)\<close> and \<^verbatim>\<open>s.endswith(p)\<close>.\<close>

definition startswith :: "string \<Rightarrow> string \<Rightarrow> bool" where
  "startswith s p = prefix p s"

definition endswith :: "string \<Rightarrow> string \<Rightarrow> bool" where
  "endswith s p = suffix p s"

text \<open>\<^verbatim>\<open>s.replace(" ", "_")\<close>.\<close>

definition replace_space :: "string \<Rightarrow> string" where
  "replace_space s = map (\<lambda>c. if c = CHR '' '' then CHR ''_'' else c) s"

section \<open>Data model\<close>

text \<open>
  The numbers of an invoice are Python floats. The model leaves the number type \<open>'a\<close> open
  and uses only its \<open>0\<close>, \<open>+\<close> and \<open>*\<close>, so that nothing proved below relies on a law that
  floating-point arithmetic lacks.
\<close>

record Settings =
  output_directory :: string
  invoice_header :: "string list"
  invoice_footer :: "string list"
  payment_instructions :: "string \<rightharpoonup> string"

record 'a InvoiceItem =
  description :: string
  quantity :: 'a
  unit_price :: 'a

record 'a Invoice =
  customer_name :: string
  customer_address1 :: string
  customer_address2 :: string
  customer_business_number :: string
  invoice_number :: int
  invoice_currency :: string
  invoice_date :: string
  invoice_items :: "'a InvoiceItem list"
  invoice_total_price :: 'a

text \<open>
  The keyword arguments handed to \<^verbatim>\<open>Invoice(**data)\<close>, after validation: the three fields
  that the class declares with a default may be absent.
\<close>

record 'a InvoiceData =
  data_customer_name :: string
  data_customer_address1 :: string
  data_customer_address2 :: string
  data_customer_business_number :: string
  data_invoice_number :: "int option"
  data_invoice_currency :: string
  data_invoice_date :: "string option"
  data_invoice_items :: "'a InvoiceItem list"
  data_invoice_total_price :: "'a option"

text \<open>
  What the program reads from its surroundings: the entries of each existing directory
  (\<^verbatim>\<open>os.listdir\<close>, \<^verbatim>\<open>os.path.exists\<close>), the date formatted when the class was defined, the
  date formatted now, and two operations of the runtime on strings: \<^verbatim>\<open>s.isdigit()\<close>, and
  \<^verbatim>\<open>int(s)\<close> with \<open>None\<close> where it raises \<^verbatim>\<open>ValueError\<close>.
\<close>

record Env =
  listing :: "string \<rightharpoonup> string list"
  class_date :: string
  now_date :: string
  str_isdigit :: "string \<Rightarrow> bool"
  int_of_str :: "string \<Rightarrow> int option"

text \<open>
  The ways a run ends early. \<open>DuplicateInvoiceNumber\<close> and \<open>OutputDirectoryMissing\<close> are the
  two \<^verbatim>\<open>sys.exit(1)\<close> of the program, \<open>UnknownCurrency\<close> is the \<^verbatim>\<open>KeyError\<close> of the
  payment-instructions lookup, \<open>FileNotFoundError\<close> is raised by \<^verbatim>\<open>os.listdir\<close>, and
  \<open>ValueError\<close> is raised by \<^verbatim>\<open>int\<close> on a text that it cannot read (the error carries the
  text) and by \<^verbatim>\<open>Table\<close> on data without a row or without a column.
\<close>

datatype error =
    DuplicateInvoiceNumber int
  | OutputDirectoryMissing string
  | UnknownCurrency string
  | FileNotFoundError string
  | ValueError string

definition os_path_exists :: "Env \<Rightarrow> string \<Rightarrow> bool" where
  "os_path_exists env p = (listing env p \<noteq> None)"

definition os_listdir :: "Env \<Rightarrow> string \<Rightarrow> error + string list" where
  "os_listdir env p = (case listing env p of None \<Rightarrow> Inl (FileNotFoundError p) | Some fs \<Rightarrow> Inr fs)"

text \<open>Sequencing: the second step runs on the value of the first unless the first raised.\<close>

definition and_then :: "error + 'b \<Rightarrow> ('b \<Rightarrow> error + 'c) \<Rightarrow> error + 'c" where
  "and_then r f = (case r of Inl e \<Rightarrow> Inl e | Inr v \<Rightarrow> f v)"

section \<open>Invoice numbering\<close>

text \<open>
  The loop of \<^verbatim>\<open>get_next_invoice_number\<close> over the directory entries; the last argument is
  the running value of the local variable \<^verbatim>\<open>invoice_number\<close>. An entry that ends in
  \<^verbatim>\<open>.pdf\<close> and whose leading text passes \<^verbatim>\<open>isdigit\<close> is handed to \<^verbatim>\<open>int\<close>, and the loop
  ends there if \<^verbatim>\<open>int\<close> raises.
\<close>

fun next_number_loop :: "Env \<Rightarrow> string list \<Rightarrow> int \<Rightarrow> error + int" where
  "next_number_loop env [] number = Inr number"
| "next_number_loop env (file # files) number =
     (if endswith file ''.pdf'' \<and> str_isdigit env (split_first file) then
        (case int_of_str env (split_first file) of
           None \<Rightarrow> Inl (ValueError (split_first file))
         | Some file_invoice_number \<Rightarrow>
             if file_invoice_number \<ge> number
             then next_number_loop env files (file_invoice_number + 1)
             else next_number_loop env files number)
      else next_number_loop env files number)"

definition get_next_invoice_number :: "Env \<Rightarrow> Settings \<Rightarrow> error + int" where
  "get_next_invoice_number env settings =
     and_then (os_listdir env (output_directory settings)) (\<lambda>files. next_number_loop env files 1)"

text \<open>
  The loop of \<^verbatim>\<open>Invoice.__init__\<close> that looks for a file starting with the requested number:
  \<open>True\<close> when it reaches \<^verbatim>\<open>sys.exit(1)\<close>.
\<close>

fun number_taken :: "int \<Rightarrow> string list \<Rightarrow> bool" where
  "number_taken n [] = False"
| "number_taken n (file # files) =
     (if startswith file (str_int n) then True else number_taken n files)"

text \<open>
  \<^verbatim>\<open>super().__init__(**data)\<close>: the fields as given, an absent field at its declared default
  (\<^verbatim>\<open>0\<close>, the date of the class definition, \<^verbatim>\<open>0.0\<close>).
\<close>

definition base_init :: "Env \<Rightarrow> ('a::zero) InvoiceData \<Rightarrow> 'a Invoice" where
  "base_init env data =
     \<lparr> customer_name = data_customer_name data,
       customer_address1 = data_customer_address1 data,
       customer_address2 = data_customer_address2 data,
       customer_business_number = data_customer_business_number data,
       invoice_number = (case data_invoice_number data of None \<Rightarrow> 0 | Some n \<Rightarrow> n),
       invoice_currency = data_invoice_currency data,
       invoice_date = (case data_invoice_date data of None \<Rightarrow> class_date env | Some d \<Rightarrow> d),
       invoice_items = data_invoice_items data,
       invoice_total_price = (case data_invoice_total_price data of None \<Rightarrow> 0 | Some t \<Rightarrow> t) \<rparr>"

text \<open>
  \<^verbatim>\<open>Invoice.__init__\<close>, reading the global \<^verbatim>\<open>settings\<close> that \<^verbatim>\<open>main\<close> has set. A non-zero
  number is checked against the directory; a zero number is replaced by the next one.
\<close>

definition Invoice_init :: "Env \<Rightarrow> Settings \<Rightarrow> ('a::zero) InvoiceData \<Rightarrow> error + 'a Invoice" where
  "Invoice_init env settings data =
     (let self = base_init env data;
          self = (if invoice_date self = [] then self\<lparr>invoice_date := now_date env\<rparr> else self)
      in if invoice_number self \<noteq> 0 then
           (case os_listdir env (output_directory settings) of
              Inl e \<Rightarrow> Inl e
            | Inr files \<Rightarrow>
                if number_taken (invoice_number self) files
                then Inl (DuplicateInvoiceNumber (invoice_number self))
                else Inr self)
         else
           (case get_next_invoice_number env settings of
              Inl e \<Rightarrow> Inl e
            | Inr n \<Rightarrow> Inr (self\<lparr>invoice_number := n\<rparr>)))"

section \<open>Document composition\<close>

text \<open>
  Three functions of the Python library that the program calls and does not define:
  the text of a float inside an f-string, \<^verbatim>\<open>textwrap.fill(text, width)\<close> and \<^verbatim>\<open>s.lower()\<close>.
\<close>

record 'a Library =
  format_float :: "'a \<Rightarrow> string"
  textwrap_fill :: "string \<Rightarrow> nat \<Rightarrow> string"
  str_lower :: "string \<Rightarrow> string"

text \<open>
  What the program hands to \<^verbatim>\<open>doc.build\<close>: a list of flowables, each a \<^verbatim>\<open>Table\<close> or a
  \<^verbatim>\<open>Spacer\<close>. A table has its rows of cells, the keyword arguments \<^verbatim>\<open>colWidths\<close>,
  \<^verbatim>\<open>rowHeights\<close> and \<^verbatim>\<open>repeatRows\<close>, and the commands of its \<^verbatim>\<open>TableStyle\<close>. A cell
  holds a string, a float, an int or another flowable.
\<close>

datatype colour = Black | Lightgrey

datatype style_arg = SStr string | SInt int | SFloat rat | SColour colour

type_synonym style_cmd = "string \<times> (int \<times> int) \<times> (int \<times> int) \<times> style_arg list"

datatype 'a flowable =
    Table (table_data: "'a cell list list") (table_colWidths: "nat list option")
      (table_rowHeights: "nat option") (table_repeatRows: nat) (table_style: "style_cmd list")
  | Spacer nat nat
and 'a cell = CStr string | CFloat 'a | CInt int | CFlow "'a flowable"

text \<open>
  The call \<^verbatim>\<open>Table(data, ...)\<close> followed by \<^verbatim>\<open>setStyle\<close>. The constructor of the table
  raises \<^verbatim>\<open>ValueError\<close> when the data has no row or when its longest row has no cell.
\<close>

definition Table_init ::
  "'a cell list list \<Rightarrow> nat list option \<Rightarrow> nat option \<Rightarrow> nat \<Rightarrow> style_cmd list \<Rightarrow> error + 'a flowable" where
  "Table_init data col_widths row_heights repeat_rows style =
     (if data = [] \<or> list_all (\<lambda>row. row = []) data
      then Inl (ValueError ''Table must have at least a row and column'')
      else Inr (Table data col_widths row_heights repeat_rows style))"

text \<open>\<^verbatim>\<open>calculate_total_price\<close>: the loop, with the running \<^verbatim>\<open>total_price\<close>, started at \<^verbatim>\<open>0.0\<close>.\<close>

fun total_price_loop :: "('a::{plus,times}) InvoiceItem list \<Rightarrow> 'a \<Rightarrow> 'a" where
  "total_price_loop [] total_price = total_price"
| "total_price_loop (item # items) total_price =
     total_price_loop items (total_price + unit_price item * quantity item)"

definition calculate_total_price :: "('a::{zero,plus,times}) Invoice \<Rightarrow> 'a" where
  "calculate_total_price invoice = total_price_loop (invoice_items invoice) 0"

text \<open>The name of the file that \<^verbatim>\<open>output_pdf\<close> writes.\<close>

definition pdf_file_name :: "'a Library \<Rightarrow> 'a Invoice \<Rightarrow> Settings \<Rightarrow> string" where
  "pdf_file_name lib invoice settings =
     output_directory settings @ ''/'' @ str_int (invoice_number invoice) @ ''_'' @
     str_lower lib (replace_space (customer_name invoice)) @ ''.pdf''"

definition first_row_bold :: "style_cmd list" where
  "first_row_bold = [(''FONTNAME'', (0, 0), (- 1, 0), [SStr ''Helvetica-Bold''])]"

definition header_data :: "Settings \<Rightarrow> 'a cell list list" where
  "header_data settings = map (\<lambda>header_text. [CStr header_text]) (invoice_header settings)"

definition header_table :: "Settings \<Rightarrow> error + 'a flowable" where
  "header_table settings = Table_init (header_data settings) None None 0 first_row_bold"

definition customer_data :: "'a Invoice \<Rightarrow> 'a cell list list" where
  "customer_data invoice =
     [[CStr (customer_name invoice)],
      [CStr (customer_address1 invoice)],
      [CStr (customer_address2 invoice)],
      [CStr (customer_business_number invoice)],
      [],
      [],
      []]"

definition customer_table :: "'a Invoice \<Rightarrow> error + 'a flowable" where
  "customer_table invoice = Table_init (customer_data invoice) None None 0 first_row_bold"

definition combined_table :: "'a flowable \<Rightarrow> 'a flowable \<Rightarrow> error + 'a flowable" where
  "combined_table header customer =
     Table_init [[CFlow header, CFlow customer]] (Some [265, 300]) None 0 []"

definition invoice_data :: "'a Invoice \<Rightarrow> 'a cell list list" where
  "invoice_data invoice =
     [[CStr ''Invoice Date:'', CStr (invoice_date invoice)],
      [CStr ''Invoice Number:'', CInt (invoice_number invoice)]]"

definition details_style :: "style_cmd list" where
  "details_style =
     [(''TEXTCOLOR'', (0, 0), (- 1, - 1), [SColour Black]),
      (''FONTNAME'', (0, 0), (- 1, - 1), [SStr ''Helvetica'']),
      (''FONTSIZE'', (0, 0), (- 1, - 1), [SInt 12]),
      (''BOTTOMPADDING'', (0, 0), (- 1, - 1), [SInt 5]),
      (''TOPPADDING'', (0, 0), (- 1, - 1), [SInt 5]),
      (''BACKGROUND'', (0, 0), (- 1, - 1), [SColour Lightgrey])]"

definition details_table :: "'a Invoice \<Rightarrow> error + 'a flowable" where
  "details_table invoice =
     Table_init (invoice_data invoice) (Some [240, 300]) None 0 details_style"

text \<open>
  The loop that appends one row per item to \<^verbatim>\<open>items_data\<close>, and the list once the total
  row is appended.
\<close>

fun items_loop :: "('a::times) Library \<Rightarrow> 'a InvoiceItem list \<Rightarrow> 'a cell list list \<Rightarrow> 'a cell list list" where
  "items_loop lib [] items_data = items_data"
| "items_loop lib (item # items) items_data =
     items_loop lib items
       (items_data @
        [[CStr (textwrap_fill lib (description item) 40),
          CFloat (quantity item),
          CFloat (unit_price item),
          CFloat (unit_price item * quantity item)]])"

definition items_data :: "('a::{zero,plus,times}) Library \<Rightarrow> 'a Invoice \<Rightarrow> 'a cell list list" where
  "items_data lib invoice =
     items_loop lib (invoice_items invoice)
       [[CStr ''Description'', CStr ''Quantity'', CStr ''Unit Price'', CStr ''Total Price'']] @
     [[CStr (''Tot ('' @ invoice_currency invoice @ ''):''), CStr '''', CStr '''',
       CStr (format_float lib (calculate_total_price invoice) @ '' '' @ invoice_currency invoice)]]"

definition items_style :: "style_cmd list" where
  "items_style =
     [(''TEXTCOLOR'', (0, 0), (- 1, - 1), [SColour Black]),
      (''FONTNAME'', (0, 0), (- 1, - 1), [SStr ''Helvetica'']),
      (''FONTSIZE'', (0, 0), (- 1, - 1), [SInt 10]),
      (''ALIGN'', (0, 0), (0, 0), [SStr ''LEFT'']),
      (''BOTTOMPADDING'', (0, 0), (- 1, - 1), [SInt 5]),
      (''TOPPADDING'', (0, 0), (- 1, - 1), [SInt 5]),
      (''INNERGRID'', (0, 0), (- 1, - 1), [SFloat 0.25, SColour Black]),
      (''BOX'', (0, 0), (- 1, - 1), [SFloat 0.25, SColour Black]),
      (''BACKGROUND'', (0, 0), (- 1, 0), [SColour Lightgrey]),
      (''FONTNAME'', (0, - 1), (- 1, - 1), [SStr ''Helvetica-Bold'']),
      (''FONTNAME'', (0, 0), (- 1, 0), [SStr ''Helvetica-Bold''])]"

definition items_table :: "('a::{zero,plus,times}) Library \<Rightarrow> 'a Invoice \<Rightarrow> error + 'a flowable" where
  "items_table lib invoice =
     Table_init (items_data lib invoice) (Some [250, 90, 100, 100]) None 1 items_style"

definition bold_style :: "style_cmd list" where
  "bold_style =
     [(''TEXTCOLOR'', (0, 0), (- 1, - 1), [SColour Black]),
      (''FONTNAME'', (0, 0), (- 1, - 1), [SStr ''Helvetica-Bold'']),
      (''FONTSIZE'', (0, 0), (- 1, - 1), [SInt 10]),
      (''ALIGN'', (0, 0), (0, 0), [SStr ''LEFT'']),
      (''VALIGN'', (0, 0), (0, 0), [SStr ''MIDDLE'']),
      (''TOPPADDING'', (0, 0), (- 1, - 1), [SInt 5])]"

text \<open>
  The dictionary lookup \<^verbatim>\<open>settings.payment_instructions[invoice.invoice_currency.lower()]\<close>,
  which raises on a missing key.
\<close>

definition lookup_payment_instructions :: "'a Library \<Rightarrow> 'a Invoice \<Rightarrow> Settings \<Rightarrow> error + string" where
  "lookup_payment_instructions lib invoice settings =
     (case payment_instructions settings (str_lower lib (invoice_currency invoice)) of
        None \<Rightarrow> Inl (UnknownCurrency (str_lower lib (invoice_currency invoice)))
      | Some instructions \<Rightarrow> Inr instructions)"

definition payment_table :: "string \<Rightarrow> error + 'a flowable" where
  "payment_table instructions = Table_init [[CStr instructions]] (Some [550]) None 0 bold_style"

definition footer_data :: "Settings \<Rightarrow> 'a cell list list" where
  "footer_data settings = map (\<lambda>footer_text. [CStr footer_text]) (invoice_footer settings)"

definition footer_table :: "Settings \<Rightarrow> error + 'a flowable" where
  "footer_table settings = Table_init (footer_data settings) (Some [550]) (Some 20) 0 bold_style"

text \<open>
  The list \<^verbatim>\<open>elements\<close> as it stands when \<^verbatim>\<open>doc.build\<close> is reached, the steps in the order
  of the source: the header table, the customer table and the table of both, the details,
  the items, the lookup of the payment instructions, the payment table, the footer table.
  When a step raises, the flowables appended before it are lost with the local variable.
\<close>

definition elements :: "('a::{zero,plus,times}) Library \<Rightarrow> 'a Invoice \<Rightarrow> Settings \<Rightarrow> error + 'a flowable list" where
  "elements lib invoice settings =
     and_then (header_table settings) (\<lambda>header.
     and_then (customer_table invoice) (\<lambda>customer.
     and_then (combined_table header customer) (\<lambda>combined.
     and_then (details_table invoice) (\<lambda>details.
     and_then (items_table lib invoice) (\<lambda>items.
     and_then (lookup_payment_instructions lib invoice settings) (\<lambda>instructions.
     and_then (payment_table instructions) (\<lambda>payment.
     and_then (footer_table settings) (\<lambda>footer.
       Inr [combined, Spacer 1 24, details, Spacer 1 24, items, Spacer 1 12,
            payment, Spacer 1 12, footer]))))))))"

text \<open>
  \<^verbatim>\<open>output_pdf\<close>: an error, or the file name and the flowables that \<^verbatim>\<open>doc.build\<close> writes
  to it. No file is written on any other path.
\<close>

definition output_pdf :: "Env \<Rightarrow> ('a::{zero,plus,times}) Library \<Rightarrow> 'a Invoice \<Rightarrow> Settings \<Rightarrow> error + string \<times> 'a flowable list" where
  "output_pdf env lib invoice settings =
     (if \<not> os_path_exists env (output_directory settings)
      then Inl (OutputDirectoryMissing (output_directory settings))
      else case elements lib invoice settings of
             Inl e \<Rightarrow> Inl e
           | Inr els \<Rightarrow> Inr (pdf_file_name lib invoice settings, els))"

section \<open>The specification's derived quantities\<close>

text \<open>
  The definitions of this section follow the words of the specification, not the code; the
  theorems below compare the code with them.

  The leading numbers of the issued artifacts of a directory: an artifact is an entry that
  ends in \<^verbatim>\<open>.pdf\<close> and whose text before the first underscore is all digits, and its
  leading number is the integer that this text denotes. \<open>max_existing\<close> is the largest of
  them, \<open>0\<close> when there is none.
\<close>

definition is_artifact :: "Env \<Rightarrow> string \<Rightarrow> bool" where
  "is_artifact env file = (endswith file ''.pdf'' \<and> str_isdigit env (split_first file))"

definition leading_numbers :: "Env \<Rightarrow> string list \<Rightarrow> int set" where
  "leading_numbers env files =
     set (List.map_filter (\<lambda>file. int_of_str env (split_first file))
       (filter (is_artifact env) files))"

definition max_existing :: "Env \<Rightarrow> string list \<Rightarrow> int" where
  "max_existing env files = Max (insert 0 (leading_numbers env files))"

text \<open>The line total of an item and the total of an invoice, summed from \<open>0\<close> in item order.\<close>

definition line_total :: "('a::times) InvoiceItem \<Rightarrow> 'a" where
  "line_total item = quantity item * unit_price item"

definition invoice_total :: "('a::{zero,plus,times}) InvoiceItem list \<Rightarrow> 'a" where
  "invoice_total items = foldl (+) 0 (map line_total items)"

text \<open>
  The base name of the artifact: the number, an underscore, and the customer name lowercased
  with each space replaced by an underscore.
\<close>

definition artifact_base_name :: "'a Library \<Rightarrow> int \<Rightarrow> string \<Rightarrow> string" where
  "artifact_base_name lib number name =
     str_int number @ ''_'' @ replace_space (str_lower lib name)"

section \<open>Sample inputs\<close>

text \<open>
  Sample character operations, which agree with Python's on a text made of ASCII
  characters and of the character superscript two (U+00B2, in UTF-8 the bytes C2 B2).
  Python's \<^verbatim>\<open>isdigit\<close> holds of a text that is not empty and whose characters are all
  digits; the ten decimal digits are digits, and so is superscript two. Python's \<^verbatim>\<open>int\<close>
  reads a text of decimal digits and raises \<^verbatim>\<open>ValueError\<close> on a text that holds superscript
  two. Python's \<^verbatim>\<open>lower\<close> maps \<^verbatim>\<open>A..Z\<close> to \<^verbatim>\<open>a..z\<close> and leaves the other characters of
  such a text alone.
\<close>

fun sample_all_digits :: "string \<Rightarrow> bool" where
  "sample_all_digits [] = True"
| "sample_all_digits (c # cs) =
     (if c \<in> set ''0123456789'' then sample_all_digits cs
      else if c = CHR 0xC2 then
        (case cs of [] \<Rightarrow> False | d # ds \<Rightarrow> d = CHR 0xB2 \<and> sample_all_digits ds)
      else False)"

definition sample_isdigit :: "string \<Rightarrow> bool" where
  "sample_isdigit s = (s \<noteq> [] \<and> sample_all_digits s)"

definition digit_val :: "char \<Rightarrow> int" where
  "digit_val c = int (of_char c) - 48"

definition sample_int :: "string \<Rightarrow> int option" where
  "sample_int s =
     (if s \<noteq> [] \<and> list_all (\<lambda>c. c \<in> set ''0123456789'') s
      then Some (foldl (\<lambda>acc c. 10 * acc + digit_val c) 0 s) else None)"

definition lower_char :: "char \<Rightarrow> char" where
  "lower_char c =
     (let n = (of_char c :: nat) in if 65 \<le> n \<and> n \<le> 90 then char_of (n + 32) else c)"

definition sample_lower :: "string \<Rightarrow> string" where
  "sample_lower s = map lower_char s"

text \<open>
  A surrounding whose output directory \<^verbatim>\<open>out\<close> holds the given entries, a settings record,
  and the invoice of the specification's end-to-end scenario with amounts in whole units.
  The sample library prints a whole number the way Python prints the float of that value,
  and leaves a description alone, as \<^verbatim>\<open>textwrap.fill\<close> does to a word shorter than the width.
\<close>

definition ledger :: "string list \<Rightarrow> Env" where
  "ledger files =
     \<lparr> listing = [''out'' \<mapsto> files], class_date = ''01/03/2024'', now_date = ''02/03/2024'',
       str_isdigit = sample_isdigit, int_of_str = sample_int \<rparr>"

definition sample_settings :: Settings where
  "sample_settings =
     \<lparr> output_directory = ''out'',
       invoice_header = [''Studio Rossi'', ''Via Roma 1''],
       invoice_footer = [''Thank you''],
       payment_instructions =
         [''eur'' \<mapsto> ''IT00 0000 0000 0000 0000 00'', ''chf'' \<mapsto> ''CH00 0000 0000 0000 0000 0''] \<rparr>"

definition acme_data :: "int option \<Rightarrow> int InvoiceData" where
  "acme_data requested =
     \<lparr> data_customer_name = ''Acme Corp'',
       data_customer_address1 = ''1 Road'',
       data_customer_address2 = ''Town'',
       data_customer_business_number = ''B-77'',
       data_invoice_number = requested,
       data_invoice_currency = ''EUR'',
       data_invoice_date = Some ''05/03/2024'',
       data_invoice_items = [\<lparr> description = ''Consulting'', quantity = 2, unit_price = 100 \<rparr>],
       data_invoice_total_price = None \<rparr>"

definition acme_invoice :: "int \<Rightarrow> int Invoice" where
  "acme_invoice number =
     \<lparr> customer_name = ''Acme Corp'',
       customer_address1 = ''1 Road'',
       customer_address2 = ''Town'',
       customer_business_number = ''B-77'',
       invoice_number = number,
       invoice_currency = ''EUR'',
       invoice_date = ''05/03/2024'',
       invoice_items = [\<lparr> description = ''Consulting'', quantity = 2, unit_price = 100 \<rparr>],
       invoice_total_price = 0 \<rparr>"

definition sample_library :: "int Library" where
  "sample_library =
     \<lparr> format_float = (\<lambda>x. str_int x @ ''.0''), textwrap_fill = (\<lambda>text width. text),
       str_lower = sample_lower \<rparr>"

text \<open>The file name whose leading text is the character superscript two.\<close>

definition superscript_two_pdf :: string where
  "superscript_two_pdf = [CHR 0xC2, CHR 0xB2] @ ''_a.pdf''"

section \<open>Facts about the loops\<close>

lemma and_then_Inl [simp]: "and_then (Inl e) f = Inl e"
  by (simp add: and_then_def)

lemma and_then_Inr [simp]: "and_then (Inr v) f = f v"
  by (simp add: and_then_def)

lemma Max_insert_max:
  fixes k m :: int
  assumes "finite S"
  shows "Max (insert (max k m) S) = Max (insert k (insert m S))"
proof (cases "S = {}")
  case True
  then show ?thesis by simp
next
  case False
  with assms show ?thesis by (simp add: max.assoc)
qed

lemma next_number_loop_skip:
  "\<not> is_artifact env file \<Longrightarrow>
   next_number_loop env (file # files) k = next_number_loop env files k"
  by (auto simp: is_artifact_def)

lemma next_number_loop_raise:
  "is_artifact env file \<Longrightarrow> int_of_str env (split_first file) = None \<Longrightarrow>
   next_number_loop env (file # files) k = Inl (ValueError (split_first file))"
  by (simp add: is_artifact_def)

lemma next_number_loop_count:
  assumes "is_artifact env file" and "int_of_str env (split_first file) = Some m"
  shows "next_number_loop env (file # files) k = next_number_loop env files (max k (m + 1))"
proof (cases "k \<le> m")
  case True
  then have "max k (m + 1) = m + 1" by simp
  with True assms show ?thesis by (simp add: is_artifact_def)
next
  case False
  then have "max k (m + 1) = k" by simp
  with False assms show ?thesis by (simp add: is_artifact_def)
qed

declare next_number_loop.simps(2) [simp del]

lemma next_number_loop_ge: "next_number_loop env files k = Inr n \<Longrightarrow> k \<le> n"
proof (induction files arbitrary: k)
  case Nil
  then show ?case by simp
next
  case (Cons f fs)
  show ?case
  proof (cases "is_artifact env f")
    case False
    with Cons show ?thesis by (simp add: next_number_loop_skip)
  next
    case True
    show ?thesis
    proof (cases "int_of_str env (split_first f)")
      case None
      with True Cons.prems show ?thesis by (simp add: next_number_loop_raise)
    next
      case (Some m)
      with True Cons.prems have "next_number_loop env fs (max k (m + 1)) = Inr n"
        by (simp add: next_number_loop_count)
      then have "max k (m + 1) \<le> n" by (rule Cons.IH)
      then show ?thesis by simp
    qed
  qed
qed

lemma next_number_loop_filter:
  "next_number_loop env files k = next_number_loop env (filter (is_artifact env) files) k"
proof (induction files arbitrary: k)
  case Nil
  show ?case by simp
next
  case (Cons f fs)
  show ?case
  proof (cases "is_artifact env f")
    case False
    then show ?thesis by (simp add: next_number_loop_skip Cons.IH)
  next
    case True
    show ?thesis
    proof (cases "int_of_str env (split_first f)")
      case None
      with True show ?thesis by (simp add: next_number_loop_raise)
    next
      case (Some m)
      with True show ?thesis by (simp add: next_number_loop_count Cons.IH)
    qed
  qed
qed

lemma leading_numbers_Cons:
  "leading_numbers env (file # files) =
     (if is_artifact env file
      then (case int_of_str env (split_first file) of
              None \<Rightarrow> leading_numbers env files
            | Some m \<Rightarrow> insert m (leading_numbers env files))
      else leading_numbers env files)"
  by (simp add: leading_numbers_def List.map_filter_simps split: option.splits)

lemma finite_leading_numbers: "finite (leading_numbers env files)"
  by (simp add: leading_numbers_def)

lemma next_number_loop_Max:
  assumes "\<forall>file\<in>set files. is_artifact env file \<longrightarrow> int_of_str env (split_first file) \<noteq> None"
  shows "next_number_loop env files k =
           Inr (Max (insert k ((\<lambda>x. x + 1) ` leading_numbers env files)))"
  using assms
proof (induction files arbitrary: k)
  case Nil
  show ?case by (simp add: leading_numbers_def List.map_filter_simps)
next
  case (Cons f fs)
  then have ih: "next_number_loop env fs j =
      Inr (Max (insert j ((\<lambda>x. x + 1) ` leading_numbers env fs)))" for j
    by simp
  show ?case
  proof (cases "is_artifact env f")
    case False
    then show ?thesis by (simp add: next_number_loop_skip ih leading_numbers_Cons)
  next
    case True
    with Cons.prems obtain m where m: "int_of_str env (split_first f) = Some m"
      by auto
    have fin: "finite ((\<lambda>x. x + 1) ` leading_numbers env fs)"
      by (simp add: finite_leading_numbers)
    show ?thesis
      using True m
      by (simp add: next_number_loop_count ih leading_numbers_Cons Max_insert_max [OF fin]
          del: Max_insert)
  qed
qed

lemma next_number_loop_max_existing:
  assumes "\<forall>file\<in>set files. is_artifact env file \<longrightarrow> int_of_str env (split_first file) \<noteq> None"
  shows "next_number_loop env files 1 = Inr (max_existing env files + 1)"
proof -
  have fin: "finite (insert 0 (leading_numbers env files))"
    by (simp add: finite_leading_numbers)
  have "Max (insert 1 ((\<lambda>x. x + 1) ` leading_numbers env files)) =
        Max ((\<lambda>x. x + 1) ` insert 0 (leading_numbers env files))"
    by simp
  also have "\<dots> = Max (insert 0 (leading_numbers env files)) + 1"
    using fin by (intro mono_Max_commute [symmetric] monoI) auto
  finally show ?thesis
    using assms by (simp add: next_number_loop_Max max_existing_def)
qed

lemma next_number_loop_raises:
  assumes "file \<in> set files" and "is_artifact env file"
    and "int_of_str env (split_first file) = None"
  shows "isl (next_number_loop env files k)"
  using assms(1)
proof (induction files arbitrary: k)
  case Nil
  then show ?case by simp
next
  case (Cons f fs)
  show ?case
  proof (cases "f = file")
    case True
    with assms show ?thesis by (simp add: next_number_loop_raise)
  next
    case False
    with Cons have ih: "isl (next_number_loop env fs j)" for j by simp
    show ?thesis
    proof (cases "is_artifact env f")
      case False
      then show ?thesis by (simp add: next_number_loop_skip ih)
    next
      case True
      then show ?thesis
        by (cases "int_of_str env (split_first f)")
          (simp_all add: next_number_loop_raise next_number_loop_count ih)
    qed
  qed
qed

lemma number_taken_iff: "number_taken n files \<longleftrightarrow> (\<exists>f\<in>set files. prefix (str_int n) f)"
  by (induction files) (auto simp: startswith_def)

lemma total_price_loop_foldl:
  "total_price_loop items acc = foldl (+) acc (map (\<lambda>item. unit_price item * quantity item) items)"
  by (induction items arbitrary: acc) simp_all

lemma items_loop_map:
  "items_loop lib items rows =
     rows @ map (\<lambda>item. [CStr (textwrap_fill lib (description item) 40), CFloat (quantity item),
                          CFloat (unit_price item), CFloat (unit_price item * quantity item)]) items"
  by (induction items arbitrary: rows) simp_all

lemma calculate_total_price_invoice_total:
  fixes invoice :: "('a::{zero,plus,times}) Invoice"
  assumes "\<forall>a b :: 'a. a * b = b * a"
  shows "calculate_total_price invoice = invoice_total (invoice_items invoice)"
proof -
  have "(\<lambda>item :: 'a InvoiceItem. unit_price item * quantity item) = line_total"
    using assms by (auto simp: line_total_def fun_eq_iff)
  then show ?thesis
    by (simp add: calculate_total_price_def invoice_total_def total_price_loop_foldl)
qed

section \<open>The sample character operations\<close>

lemma lower_char_underscore: "lower_char CHR ''_'' = CHR ''_''"
  by (simp add: lower_char_def)

lemma lower_char_space_iff: "lower_char c = CHR '' '' \<longleftrightarrow> c = CHR '' ''"
proof -
  have "char_of (of_char c + (32::nat)) \<noteq> CHR '' ''"
    if "65 \<le> (of_char c :: nat)" "(of_char c :: nat) \<le> 90"
  proof
    assume "char_of (of_char c + (32::nat)) = CHR '' ''"
    then have "(of_char (char_of (of_char c + (32::nat))) :: nat) = of_char CHR '' ''" by simp
    with that show False by simp
  qed
  then show ?thesis by (auto simp: lower_char_def Let_def)
qed

lemma sample_lower_replace_space: "sample_lower (replace_space s) = replace_space (sample_lower s)"
  by (induction s)
    (simp_all add: sample_lower_def replace_space_def lower_char_underscore lower_char_space_iff)

text \<open>
  The text that \<open>str_nat\<close> produces is a text of decimal digits, and reading it back gives
  the number: \<open>str_nat\<close> is the decimal representation.
\<close>

lemma digit_char_digit:
  assumes "d < 10"
  shows "digit_char d \<in> set ''0123456789'' \<and> digit_val (digit_char d) = int d"
proof -
  from assms have "d = 0 \<or> d = 1 \<or> d = 2 \<or> d = 3 \<or> d = 4 \<or> d = 5 \<or> d = 6 \<or> d = 7 \<or> d = 8 \<or> d = 9"
    by arith
  then show ?thesis
    by (elim disjE) (simp_all add: digit_char_def digit_val_def)
qed

lemma str_nat_digits:
  "str_nat n \<noteq> [] \<and> list_all (\<lambda>c. c \<in> set ''0123456789'') (str_nat n) \<and>
   foldl (\<lambda>acc c. 10 * acc + digit_val c) 0 (str_nat n) = int n"
proof (induction n rule: str_nat.induct)
  case (1 n)
  show ?case
  proof (cases "n < 10")
    case True
    have eq: "str_nat n = [digit_char n]"
      using True by (subst str_nat.simps) simp
    show ?thesis
      using digit_char_digit [OF True] by (simp add: eq)
  next
    case False
    have d: "digit_char (n mod 10) \<in> set ''0123456789''"
      "digit_val (digit_char (n mod 10)) = int (n mod 10)"
      using digit_char_digit [of "n mod 10"] by simp_all
    from False 1 have ih: "list_all (\<lambda>c. c \<in> set ''0123456789'') (str_nat (n div 10))"
      "foldl (\<lambda>acc c. 10 * acc + digit_val c) 0 (str_nat (n div 10)) = int (n div 10)"
      by simp_all
    have eq: "str_nat n = str_nat (n div 10) @ [digit_char (n mod 10)]"
      using False by (subst str_nat.simps) simp
    show ?thesis
      using ih d by (simp add: eq zdiv_int zmod_int)
  qed
qed

lemma sample_int_str_int: "0 \<le> n \<Longrightarrow> sample_int (str_int n) = Some n"
  using str_nat_digits [of "nat n"] by (simp add: sample_int_def str_int_def)

section \<open>Facts about the tables\<close>

lemma Table_init_Cons:
  "row \<noteq> [] \<Longrightarrow>
   Table_init (row # rows) cw rh rr st = Inr (Table (row # rows) cw rh rr st)"
  by (simp add: Table_init_def)

lemma Table_init_column:
  "Table_init (map (\<lambda>t. [CStr t]) ts) cw rh rr st =
     (if ts = [] then Inl (ValueError ''Table must have at least a row and column'')
      else Inr (Table (map (\<lambda>t. [CStr t]) ts) cw rh rr st))"
  by (cases ts) (simp_all add: Table_init_def)

lemma header_table_eq:
  "header_table settings =
     (if invoice_header settings = []
      then Inl (ValueError ''Table must have at least a row and column'')
      else Inr (Table (header_data settings) None None 0 first_row_bold))"
  by (simp add: header_table_def header_data_def Table_init_column)

lemma footer_table_eq:
  "footer_table settings =
     (if invoice_footer settings = []
      then Inl (ValueError ''Table must have at least a row and column'')
      else Inr (Table (footer_data settings) (Some [550]) (Some 20) 0 bold_style))"
  by (simp add: footer_table_def footer_data_def Table_init_column)

lemma customer_table_eq:
  "customer_table invoice = Inr (Table (customer_data invoice) None None 0 first_row_bold)"
  by (simp add: customer_table_def customer_data_def Table_init_Cons)

lemma combined_table_eq:
  "combined_table header customer =
     Inr (Table [[CFlow header, CFlow customer]] (Some [265, 300]) None 0 [])"
  by (simp add: combined_table_def Table_init_Cons)

lemma details_table_eq:
  "details_table invoice = Inr (Table (invoice_data invoice) (Some [240, 300]) None 0 details_style)"
  by (simp add: details_table_def invoice_data_def Table_init_Cons)

lemma items_data_rows:
  "items_data lib invoice =
     [CStr ''Description'', CStr ''Quantity'', CStr ''Unit Price'', CStr ''Total Price''] #
     map (\<lambda>item. [CStr (textwrap_fill lib (description item) 40), CFloat (quantity item),
                   CFloat (unit_price item), CFloat (unit_price item * quantity item)])
       (invoice_items invoice) @
     [[CStr (''Tot ('' @ invoice_currency invoice @ ''):''), CStr '''', CStr '''',
       CStr (format_float lib (calculate_total_price invoice) @ '' '' @ invoice_currency invoice)]]"
  by (simp add: items_data_def items_loop_map)

lemma items_table_eq:
  "items_table lib invoice =
     Inr (Table (items_data lib invoice) (Some [250, 90, 100, 100]) None 1 items_style)"
  unfolding items_table_def
  by (subst (1 2) items_data_rows) (simp add: Table_init_Cons)

lemma payment_table_eq:
  "payment_table instructions = Inr (Table [[CStr instructions]] (Some [550]) None 0 bold_style)"
  by (simp add: payment_table_def Table_init_Cons)

text \<open>
  The outcome of \<open>elements\<close> case by case: no header line, an unknown currency, no footer
  line, or the nine flowables.
\<close>

lemma elements_eq:
  "elements lib invoice settings =
     (if invoice_header settings = []
      then Inl (ValueError ''Table must have at least a row and column'')
      else case payment_instructions settings (str_lower lib (invoice_currency invoice)) of
        None \<Rightarrow> Inl (UnknownCurrency (str_lower lib (invoice_currency invoice)))
      | Some instructions \<Rightarrow>
          if invoice_footer settings = []
          then Inl (ValueError ''Table must have at least a row and column'')
          else Inr [Table [[CFlow (Table (header_data settings) None None 0 first_row_bold),
                            CFlow (Table (customer_data invoice) None None 0 first_row_bold)]]
                      (Some [265, 300]) None 0 [],
                    Spacer 1 24,
                    Table (invoice_data invoice) (Some [240, 300]) None 0 details_style,
                    Spacer 1 24,
                    Table (items_data lib invoice) (Some [250, 90, 100, 100]) None 1 items_style,
                    Spacer 1 12,
                    Table [[CStr instructions]] (Some [550]) None 0 bold_style,
                    Spacer 1 12,
                    Table (footer_data settings) (Some [550]) (Some 20) 0 bold_style])"
  by (simp add: elements_def header_table_eq customer_table_eq combined_table_eq
      details_table_eq items_table_eq lookup_payment_instructions_def payment_table_eq
      footer_table_eq split: option.splits)

lemma elements_items_table:
  "elements lib invoice settings = Inr els \<Longrightarrow>
   els ! 4 = Table (items_data lib invoice) (Some [250, 90, 100, 100]) None 1 items_style"
  by (auto simp: elements_eq split: if_splits option.splits)

section \<open>Claims about invoice numbering\<close>

text \<open>
  When \<^verbatim>\<open>int\<close> reads the leading text of every artifact of the directory, an absent or zero
  number is resolved to \<open>max_existing + 1\<close>; when it raises on one of them, construction
  fails.
\<close>

lemma resolve_absent_max_plus_one:
  fixes data :: "('a::zero) InvoiceData"
  assumes "listing env (output_directory settings) = Some files"
    and "data_invoice_number data = None \<or> data_invoice_number data = Some 0"
    and "\<forall>f\<in>set files. is_artifact env f \<longrightarrow> int_of_str env (split_first f) \<noteq> None"
  shows "get_next_invoice_number env settings = Inr (max_existing env files + 1) \<and>
         (\<exists>invoice. Invoice_init env settings data = Inr invoice \<and>
            invoice_number invoice = max_existing env files + 1)"
proof -
  have nxt: "get_next_invoice_number env settings = Inr (max_existing env files + 1)"
    using assms(1) next_number_loop_max_existing [OF assms(3)]
    by (simp add: get_next_invoice_number_def os_listdir_def)
  have zero: "invoice_number (base_init env data) = 0"
    using assms(2) by (auto simp: base_init_def)
  show ?thesis
    using nxt zero by (simp add: Invoice_init_def Let_def)
qed

lemma resolve_absent_raises:
  fixes data :: "('a::zero) InvoiceData"
  assumes "listing env (output_directory settings) = Some files"
    and "data_invoice_number data = None \<or> data_invoice_number data = Some 0"
    and "f \<in> set files" and "is_artifact env f" and "int_of_str env (split_first f) = None"
  shows "isl (get_next_invoice_number env settings) \<and> isl (Invoice_init env settings data)"
proof -
  have nxt: "isl (get_next_invoice_number env settings)"
    using assms(1) next_number_loop_raises [OF assms(3,4,5)]
    by (simp add: get_next_invoice_number_def os_listdir_def)
  have zero: "invoice_number (base_init env data) = 0"
    using assms(2) by (auto simp: base_init_def)
  show ?thesis
    using nxt zero by (auto simp: Invoice_init_def Let_def split: sum.splits)
qed

text \<open>
  The two instances of the specification: a directory with the leading numbers 3, 1 and 7
  yields 8, and an empty directory yields 1.
\<close>

lemma resolve_absent_instances:
  "map_sum id invoice_number
     (Invoice_init (ledger [''3_a.pdf'', ''1_b.pdf'', ''7_c.pdf'']) sample_settings (acme_data None)) = Inr 8 \<and>
   map_sum id invoice_number
     (Invoice_init (ledger []) sample_settings (acme_data (Some 0))) = Inr 1"
  by code_simp

text \<open>
  Claim C1. The claim is that an absent or zero number is resolved to \<open>max_existing + 1\<close> in
  every directory. The code guards \<^verbatim>\<open>int\<close> by \<^verbatim>\<open>isdigit\<close>, and the guard lets through a
  text that \<^verbatim>\<open>int\<close> cannot read: in a directory that holds an entry named superscript two,
  underscore, \<^verbatim>\<open>a.pdf\<close>, the leading text passes \<^verbatim>\<open>isdigit\<close>, \<^verbatim>\<open>int\<close> raises
  \<^verbatim>\<open>ValueError\<close> on it, and both the scan and the construction of the invoice end with that
  error instead of a number.
\<close>

theorem superscript_two_raises:
  "str_isdigit (ledger [superscript_two_pdf]) (split_first superscript_two_pdf) \<and>
   int_of_str (ledger [superscript_two_pdf]) (split_first superscript_two_pdf) = None \<and>
   get_next_invoice_number (ledger [superscript_two_pdf]) sample_settings =
     Inl (ValueError [CHR 0xC2, CHR 0xB2]) \<and>
   Invoice_init (ledger [superscript_two_pdf]) sample_settings (acme_data None) =
     Inl (ValueError [CHR 0xC2, CHR 0xB2])"
  by code_simp

text \<open>
  Claim C2. For a requested non-zero number \<open>n\<close>, construction fails with
  \<open>DuplicateInvoiceNumber\<close> exactly when some entry of the output directory starts with the
  decimal text of \<open>n\<close>, and it fails in no other case. The test is one of string prefixes.
\<close>

theorem duplicate_iff_prefix:
  fixes data :: "('a::zero) InvoiceData"
  assumes "listing env (output_directory settings) = Some files"
    and "data_invoice_number data = Some n" and "n \<noteq> 0"
  shows "(Invoice_init env settings data = Inl (DuplicateInvoiceNumber n) \<longleftrightarrow>
            (\<exists>file\<in>set files. startswith file (str_int n))) \<and>
         (isl (Invoice_init env settings data) \<longleftrightarrow>
            (\<exists>file\<in>set files. startswith file (str_int n)))"
proof -
  have "invoice_number (base_init env data) = n"
    using assms(2) by (simp add: base_init_def)
  then show ?thesis
    using assms(1,3)
    by (simp add: Invoice_init_def Let_def os_listdir_def number_taken_iff startswith_def)
qed

text \<open>The number 1 is rejected when the directory holds \<^verbatim>\<open>10_acme.pdf\<close>.\<close>

theorem duplicate_iff_prefix_witness:
  "str_int 1 = ''1'' \<and> startswith ''10_acme.pdf'' (str_int 1) \<and>
   Invoice_init (ledger [''10_acme.pdf'']) sample_settings (acme_data (Some 1)) =
     Inl (DuplicateInvoiceNumber 1)"
proof -
  have dir: "listing (ledger [''10_acme.pdf'']) (output_directory sample_settings) = Some [''10_acme.pdf'']"
    by (simp add: ledger_def sample_settings_def)
  have req: "data_invoice_number (acme_data (Some 1)) = Some 1"
    by (simp add: acme_data_def)
  have s: "str_int 1 = ''1''" by code_simp
  show ?thesis
    using duplicate_iff_prefix [OF dir req] by (simp add: s startswith_def)
qed

text \<open>
  Claim C5. For a requested non-zero number \<open>n\<close> such that no entry of the output directory
  starts with the decimal text of \<open>n\<close>, construction succeeds and the record keeps \<open>n\<close>.
\<close>

theorem resolve_keeps_requested:
  fixes data :: "('a::zero) InvoiceData"
  assumes "listing env (output_directory settings) = Some files"
    and "data_invoice_number data = Some n" and "n \<noteq> 0"
    and "\<not> (\<exists>file\<in>set files. startswith file (str_int n))"
  shows "\<exists>invoice. Invoice_init env settings data = Inr invoice \<and> invoice_number invoice = n"
proof -
  have "invoice_number (base_init env data) = n"
    using assms(2) by (simp add: base_init_def)
  then show ?thesis
    using assms(1,3,4)
    by (simp add: Invoice_init_def Let_def os_listdir_def number_taken_iff startswith_def)
qed

text \<open>The number 2 is kept in a directory that holds the numbers 1 and 10.\<close>

theorem resolve_keeps_requested_witness:
  "map_sum id invoice_number
     (Invoice_init (ledger [''1_b.pdf'', ''10_acme.pdf'']) sample_settings (acme_data (Some 2))) = Inr 2"
proof -
  have dir: "listing (ledger [''1_b.pdf'', ''10_acme.pdf'']) (output_directory sample_settings) =
      Some [''1_b.pdf'', ''10_acme.pdf'']"
    by (simp add: ledger_def sample_settings_def)
  have req: "data_invoice_number (acme_data (Some 2)) = Some 2"
    by (simp add: acme_data_def)
  have s: "str_int 2 = ''2''" by code_simp
  have free: "\<not> (\<exists>file\<in>set [''1_b.pdf'', ''10_acme.pdf'']. startswith file (str_int 2))"
    by (simp add: s startswith_def)
  show ?thesis
    using resolve_keeps_requested [OF dir req _ free] by auto
qed

text \<open>
  Claim C9, as stated: every constructed record has a number of at least 1. A requested
  negative number is neither rejected nor replaced: with \<open>- 5\<close> and an empty directory the
  record is constructed with the number \<open>- 5\<close>.
\<close>

theorem negative_number_survives_counterexample:
  "Invoice_init (ledger []) sample_settings (acme_data (Some (- 5))) = Inr (acme_invoice (- 5)) \<and>
   \<not> 1 \<le> invoice_number (acme_invoice (- 5))"
  by (simp add: Invoice_init_def Let_def base_init_def acme_data_def acme_invoice_def
      os_listdir_def ledger_def sample_settings_def)

text \<open>
  Claim C9, amended. Every constructed record has a number other than \<open>0\<close>, so the pending
  state is never seen; the number is at least 1 whenever the supplied number was absent, \<open>0\<close>
  or positive.
\<close>

theorem constructed_number:
  fixes data :: "('a::zero) InvoiceData"
  assumes "Invoice_init env settings data = Inr invoice"
  shows "invoice_number invoice \<noteq> 0 \<and>
         (data_invoice_number data = None \<or> (\<exists>n. data_invoice_number data = Some n \<and> 0 \<le> n)
            \<longrightarrow> 1 \<le> invoice_number invoice)"
proof (cases "invoice_number (base_init env data) = 0")
  case True
  with assms obtain files where
    "listing env (output_directory settings) = Some files"
    "next_number_loop env files 1 = Inr (invoice_number invoice)"
    by (auto simp: Invoice_init_def Let_def get_next_invoice_number_def os_listdir_def
        split: option.splits if_splits sum.splits)
  then have "1 \<le> invoice_number invoice" by (intro next_number_loop_ge)
  then show ?thesis by simp
next
  case False
  with assms have "invoice_number invoice = invoice_number (base_init env data)"
    by (auto simp: Invoice_init_def Let_def os_listdir_def split: option.splits if_splits)
  moreover have "invoice_number (base_init env data) =
      (case data_invoice_number data of None \<Rightarrow> 0 | Some n \<Rightarrow> n)"
    by (simp add: base_init_def)
  ultimately show ?thesis using False by (auto split: option.splits)
qed

text \<open>An absent number in a directory that holds the number 4 becomes 5.\<close>

theorem constructed_number_witness:
  "Invoice_init (ledger [''4_x.pdf'']) sample_settings (acme_data None) = Inr (acme_invoice 5) \<and>
   invoice_number (acme_invoice 5) \<noteq> 0 \<and> 1 \<le> invoice_number (acme_invoice 5)"
proof -
  have run: "Invoice_init (ledger [''4_x.pdf'']) sample_settings (acme_data None) = Inr (acme_invoice 5)"
    by code_simp
  have "data_invoice_number (acme_data None) = None" by (simp add: acme_data_def)
  with constructed_number [OF run] run show ?thesis by simp
qed

text \<open>
  Claim C10. The duplicate check rejects a requested number as soon as any entry starts
  with its decimal text, whatever the rest of the entry; the scan for the next number sees
  only the entries that end in \<^verbatim>\<open>.pdf\<close> and whose text before the first underscore is all
  digits. With the single entry \<^verbatim>\<open>5notes.txt\<close> the number 5 is rejected, though an absent
  number would be resolved to 1.
\<close>

theorem filters_differ:
  fixes data :: "('a::zero) InvoiceData"
  shows "(listing env (output_directory settings) = Some files \<and>
          data_invoice_number data = Some n \<and> n \<noteq> 0 \<and>
          file \<in> set files \<and> startswith file (str_int n) \<longrightarrow>
            Invoice_init env settings data = Inl (DuplicateInvoiceNumber n)) \<and>
         next_number_loop env files 1 =
           next_number_loop env
             (filter (\<lambda>f. endswith f ''.pdf'' \<and> str_isdigit env (split_first f)) files) 1 \<and>
         Invoice_init (ledger [''5notes.txt'']) sample_settings
             (data\<lparr>data_invoice_number := Some 5\<rparr>) = Inl (DuplicateInvoiceNumber 5) \<and>
         (\<exists>invoice. Invoice_init (ledger [''5notes.txt'']) sample_settings
             (data\<lparr>data_invoice_number := None\<rparr>) = Inr invoice \<and> invoice_number invoice \<le> 5)"
proof -
  have reject: "Invoice_init env' settings' data' = Inl (DuplicateInvoiceNumber m)"
    if "listing env' (output_directory settings') = Some files'"
      "data_invoice_number data' = Some m" "m \<noteq> 0"
      "file' \<in> set files'" "startswith file' (str_int m)"
    for env' settings' files' m file' and data' :: "'a InvoiceData"
  proof -
    have "invoice_number (base_init env' data') = m"
      using that(2) by (simp add: base_init_def)
    moreover have "number_taken m files'"
      using that(4,5) by (auto simp: number_taken_iff startswith_def)
    ultimately show ?thesis
      using that(1,3) by (simp add: Invoice_init_def Let_def os_listdir_def)
  qed
  have "is_artifact env = (\<lambda>f. endswith f ''.pdf'' \<and> str_isdigit env (split_first f))"
    by (simp add: is_artifact_def fun_eq_iff)
  then have scan: "next_number_loop env files 1 =
      next_number_loop env
        (filter (\<lambda>f. endswith f ''.pdf'' \<and> str_isdigit env (split_first f)) files) 1"
    using next_number_loop_filter [of env files 1] by simp
  have dir: "listing (ledger [''5notes.txt'']) (output_directory sample_settings) = Some [''5notes.txt'']"
    by (simp add: ledger_def sample_settings_def)
  have five: "startswith ''5notes.txt'' (str_int 5)" by code_simp
  have dup: "Invoice_init (ledger [''5notes.txt'']) sample_settings
             (data\<lparr>data_invoice_number := Some 5\<rparr>) = Inl (DuplicateInvoiceNumber 5)"
    using five by (intro reject [OF dir]) simp_all
  have one: "next_number_loop (ledger [''5notes.txt'']) [''5notes.txt''] 1 = Inr 1" by code_simp
  have nxt: "\<exists>invoice. Invoice_init (ledger [''5notes.txt'']) sample_settings
             (data\<lparr>data_invoice_number := None\<rparr>) = Inr invoice \<and> invoice_number invoice \<le> 5"
    using dir one
    by (simp add: Invoice_init_def Let_def base_init_def get_next_invoice_number_def os_listdir_def)
  from reject scan dup nxt show ?thesis by blast
qed

text \<open>The same directory with the sample invoice.\<close>

theorem filters_differ_witness:
  "Invoice_init (ledger [''5notes.txt'']) sample_settings (acme_data (Some 5)) =
     Inl (DuplicateInvoiceNumber 5) \<and>
   Invoice_init (ledger [''5notes.txt'']) sample_settings (acme_data None) = Inr (acme_invoice 1) \<and>
   next_number_loop (ledger [''5notes.txt'']) [''5notes.txt''] 1 =
     next_number_loop (ledger [''5notes.txt'']) [] 1"
proof -
  have upd: "(acme_data r)\<lparr>data_invoice_number := r'\<rparr> = acme_data r'" for r r'
    by (simp add: acme_data_def)
  have run: "Invoice_init (ledger [''5notes.txt'']) sample_settings (acme_data None) = Inr (acme_invoice 1)"
    by code_simp
  have scan: "next_number_loop (ledger [''5notes.txt'']) [''5notes.txt''] 1 =
      next_number_loop (ledger [''5notes.txt'']) [] 1"
    by code_simp
  have "Invoice_init (ledger [''5notes.txt'']) sample_settings (acme_data (Some 5)) =
     Inl (DuplicateInvoiceNumber 5)"
    using filters_differ [of "ledger [''5notes.txt'']" sample_settings "[''5notes.txt'']"
        "acme_data None" 5 "''5notes.txt''"]
    by (simp only: upd)
  with run scan show ?thesis by blast
qed

section \<open>Claims about the composed document\<close>

text \<open>
  Claim C3. The last row of the line-items block prints the total of the invoice, the sum
  of \<open>quantity * unit_price\<close> over the items, computed from the items; the stored field
  \<^verbatim>\<open>invoice_total_price\<close> changes neither that row nor anything else that is written. The
  code multiplies \<open>unit_price * quantity\<close>; the two products agree for a commutative
  multiplication, as that of floats is.
\<close>

theorem total_row_recomputed:
  fixes invoice :: "('a::{zero,plus,times}) Invoice"
  assumes "\<forall>a b :: 'a. a * b = b * a"
  shows "last (items_data lib invoice) =
           [CStr (''Tot ('' @ invoice_currency invoice @ ''):''), CStr '''', CStr '''',
            CStr (format_float lib (invoice_total (invoice_items invoice)) @ '' '' @
                  invoice_currency invoice)] \<and>
         items_data lib (invoice\<lparr>invoice_total_price := stale\<rparr>) = items_data lib invoice \<and>
         output_pdf env lib (invoice\<lparr>invoice_total_price := stale\<rparr>) settings =
           output_pdf env lib invoice settings"
proof -
  have total: "calculate_total_price invoice = invoice_total (invoice_items invoice)"
    using assms by (rule calculate_total_price_invoice_total)
  have row: "last (items_data lib invoice) =
           [CStr (''Tot ('' @ invoice_currency invoice @ ''):''), CStr '''', CStr '''',
            CStr (format_float lib (invoice_total (invoice_items invoice)) @ '' '' @
                  invoice_currency invoice)]"
    by (simp add: items_data_def total)
  have data: "items_data lib (invoice\<lparr>invoice_total_price := stale\<rparr>) = items_data lib invoice"
    by (simp add: items_data_def calculate_total_price_def)
  have els: "elements lib (invoice\<lparr>invoice_total_price := stale\<rparr>) settings =
      elements lib invoice settings"
  proof -
    have "customer_table (invoice\<lparr>invoice_total_price := stale\<rparr>) = customer_table invoice"
      by (simp add: customer_table_def customer_data_def)
    moreover have "details_table (invoice\<lparr>invoice_total_price := stale\<rparr>) = details_table invoice"
      by (simp add: details_table_def invoice_data_def)
    moreover have "items_table lib (invoice\<lparr>invoice_total_price := stale\<rparr>) =
        items_table lib invoice"
      by (simp add: items_table_def data)
    moreover have "lookup_payment_instructions lib (invoice\<lparr>invoice_total_price := stale\<rparr>) settings =
        lookup_payment_instructions lib invoice settings"
      by (simp add: lookup_payment_instructions_def split: option.splits)
    ultimately show ?thesis by (simp add: elements_def)
  qed
  have name: "pdf_file_name lib (invoice\<lparr>invoice_total_price := stale\<rparr>) settings =
      pdf_file_name lib invoice settings"
    by (simp add: pdf_file_name_def)
  have out: "output_pdf env lib (invoice\<lparr>invoice_total_price := stale\<rparr>) settings =
           output_pdf env lib invoice settings"
    by (simp add: output_pdf_def els name split: sum.splits)
  from row data out show ?thesis by simp
qed

text \<open>Two units at 100 with a stale stored total of 999 print \<^verbatim>\<open>200.0 EUR\<close>.\<close>

theorem total_row_recomputed_witness:
  "last (items_data sample_library ((acme_invoice 1)\<lparr>invoice_total_price := 999\<rparr>)) =
     [CStr ''Tot (EUR):'', CStr '''', CStr '''', CStr ''200.0 EUR'']"
proof -
  have comm: "\<forall>a b :: int. a * b = b * a" by (simp add: mult.commute)
  have total: "invoice_total (invoice_items (acme_invoice 1)) = 200"
    by (simp add: invoice_total_def line_total_def acme_invoice_def)
  have fmt: "format_float sample_library 200 = ''200.0''" by code_simp
  have cur: "invoice_currency (acme_invoice 1) = ''EUR''" by (simp add: acme_invoice_def)
  show ?thesis
    using total_row_recomputed [OF comm, of sample_library "acme_invoice 1" 999]
    by (simp add: total fmt cur)
qed

text \<open>
  Claim C7. The line-items block is the header row, then one row per item in the order of
  the invoice, holding the description filled to a width of 40, the quantity, the unit
  price and the line total, then the total row; it is the fifth flowable of the document.
\<close>

theorem line_items_block:
  fixes invoice :: "('a::{zero,plus,times}) Invoice"
  assumes "\<forall>a b :: 'a. a * b = b * a"
  shows "items_data lib invoice =
           [[CStr ''Description'', CStr ''Quantity'', CStr ''Unit Price'', CStr ''Total Price'']] @
           map (\<lambda>item. [CStr (textwrap_fill lib (description item) 40), CFloat (quantity item),
                         CFloat (unit_price item), CFloat (line_total item)])
             (invoice_items invoice) @
           [[CStr (''Tot ('' @ invoice_currency invoice @ ''):''), CStr '''', CStr '''',
             CStr (format_float lib (invoice_total (invoice_items invoice)) @ '' '' @
                   invoice_currency invoice)]] \<and>
         (\<forall>els. elements lib invoice settings = Inr els \<longrightarrow>
            table_data (els ! 4) = items_data lib invoice)"
proof -
  have total: "calculate_total_price invoice = invoice_total (invoice_items invoice)"
    using assms by (rule calculate_total_price_invoice_total)
  have line: "unit_price item * quantity item = line_total item" for item :: "'a InvoiceItem"
    using assms by (simp add: line_total_def)
  have rows: "items_data lib invoice =
           [[CStr ''Description'', CStr ''Quantity'', CStr ''Unit Price'', CStr ''Total Price'']] @
           map (\<lambda>item. [CStr (textwrap_fill lib (description item) 40), CFloat (quantity item),
                         CFloat (unit_price item), CFloat (line_total item)])
             (invoice_items invoice) @
           [[CStr (''Tot ('' @ invoice_currency invoice @ ''):''), CStr '''', CStr '''',
             CStr (format_float lib (invoice_total (invoice_items invoice)) @ '' '' @
                   invoice_currency invoice)]]"
    by (simp add: items_data_rows total line)
  have block: "table_data (els ! 4) = items_data lib invoice"
    if "elements lib invoice settings = Inr els" for els
    using elements_items_table [OF that] by simp
  from rows block show ?thesis by blast
qed

text \<open>The block of the sample invoice.\<close>

theorem line_items_block_witness:
  "items_data sample_library (acme_invoice 1) =
     [[CStr ''Description'', CStr ''Quantity'', CStr ''Unit Price'', CStr ''Total Price''],
      [CStr ''Consulting'', CFloat 2, CFloat 100, CFloat 200],
      [CStr ''Tot (EUR):'', CStr '''', CStr '''', CStr ''200.0 EUR'']] \<and>
   map_sum id (\<lambda>els. table_data (els ! 4)) (elements sample_library (acme_invoice 1) sample_settings) =
     Inr (items_data sample_library (acme_invoice 1))"
proof -
  have comm: "\<forall>a b :: int. a * b = b * a" by (simp add: mult.commute)
  have total: "invoice_total [\<lparr> description = ''Consulting'', quantity = 2, unit_price = 100 \<rparr>] = (200::int)"
    by (simp add: invoice_total_def line_total_def)
  have fmt: "format_float sample_library 200 = ''200.0''" by code_simp
  have fill: "textwrap_fill sample_library t w = t" for t w
    by (simp add: sample_library_def)
  have inv: "invoice_currency (acme_invoice 1) = ''EUR''"
    "invoice_items (acme_invoice 1) = [\<lparr> description = ''Consulting'', quantity = 2, unit_price = 100 \<rparr>]"
    by (simp_all add: acme_invoice_def)
  have "isl (elements sample_library (acme_invoice 1) sample_settings) = False"
    by code_simp
  then obtain els where els: "elements sample_library (acme_invoice 1) sample_settings = Inr els"
    by (cases "elements sample_library (acme_invoice 1) sample_settings") simp_all
  show ?thesis
    using line_items_block [OF comm, of sample_library "acme_invoice 1" sample_settings] els
    by (simp add: total fmt fill inv line_total_def)
qed

text \<open>
  Claim C4, as stated: for every layout configuration, an unknown currency makes composing
  fail with \<open>UnknownCurrency\<close>, and a known one puts the mapped instruction in the payment
  block. The header table is built before the lookup and the footer table after it, and
  \<^verbatim>\<open>Table\<close> raises \<^verbatim>\<open>ValueError\<close> on a table without a row: with no header line and the
  unknown currency USD composing fails with that error, not with \<open>UnknownCurrency\<close>, and
  with no header line and the known currency EUR it fails all the same.
\<close>

theorem empty_header_counterexample:
  "payment_instructions (sample_settings\<lparr>invoice_header := []\<rparr>)
     (str_lower sample_library ''USD'') = None \<and>
   elements sample_library ((acme_invoice 1)\<lparr>invoice_currency := ''USD''\<rparr>)
     (sample_settings\<lparr>invoice_header := []\<rparr>) =
     Inl (ValueError ''Table must have at least a row and column'') \<and>
   payment_instructions (sample_settings\<lparr>invoice_header := []\<rparr>)
     (str_lower sample_library ''EUR'') = Some ''IT00 0000 0000 0000 0000 00'' \<and>
   elements sample_library (acme_invoice 1) (sample_settings\<lparr>invoice_header := []\<rparr>) =
     Inl (ValueError ''Table must have at least a row and column'')"
  by code_simp

text \<open>
  Claim C4, amended. For a layout configuration with at least one header line: when the
  lowercased currency of the invoice is not a key of \<^verbatim>\<open>payment_instructions\<close>, composing
  fails with \<open>UnknownCurrency\<close>, no flowable is produced, and \<^verbatim>\<open>output_pdf\<close> ends in an error
  in every surrounding, so nothing is written; when it is a key and there is at least one
  footer line too, composing succeeds and the payment block, the seventh of nine
  flowables, is the one-cell table holding the mapped instruction.
\<close>

theorem unknown_currency:
  fixes invoice :: "('a::{zero,plus,times}) Invoice"
  assumes "invoice_header settings \<noteq> []"
  shows "(payment_instructions settings (str_lower lib (invoice_currency invoice)) = None \<longrightarrow>
            elements lib invoice settings =
              Inl (UnknownCurrency (str_lower lib (invoice_currency invoice))) \<and>
            isl (output_pdf env lib invoice settings) \<and>
            (os_path_exists env (output_directory settings) \<longrightarrow>
               output_pdf env lib invoice settings =
                 Inl (UnknownCurrency (str_lower lib (invoice_currency invoice))))) \<and>
         (\<forall>instructions.
            payment_instructions settings (str_lower lib (invoice_currency invoice)) =
              Some instructions \<and> invoice_footer settings \<noteq> [] \<longrightarrow>
            (\<exists>els. elements lib invoice settings = Inr els \<and> length els = 9 \<and>
               els ! 6 = Table [[CStr instructions]] (Some [550]) None 0 bold_style \<and>
               table_data (els ! 6) = [[CStr instructions]]))"
  using assms by (simp add: elements_eq output_pdf_def)

text \<open>The currency USD is unknown to the sample settings, EUR is known.\<close>

theorem unknown_currency_witness:
  "elements sample_library ((acme_invoice 1)\<lparr>invoice_currency := ''USD''\<rparr>) sample_settings =
     Inl (UnknownCurrency ''usd'') \<and>
   output_pdf (ledger []) sample_library ((acme_invoice 1)\<lparr>invoice_currency := ''USD''\<rparr>)
     sample_settings = Inl (UnknownCurrency ''usd'') \<and>
   map_sum id (\<lambda>els. table_data (els ! 6))
     (elements sample_library (acme_invoice 1) sample_settings) =
     Inr [[CStr ''IT00 0000 0000 0000 0000 00'']]"
proof -
  have usd: "str_lower sample_library ''USD'' = ''usd''" by code_simp
  have eur: "str_lower sample_library ''EUR'' = ''eur''" by code_simp
  have cur: "invoice_currency (acme_invoice 1) = ''EUR''" by (simp add: acme_invoice_def)
  have missing: "payment_instructions sample_settings ''usd'' = None"
    by (simp add: sample_settings_def)
  have found: "payment_instructions sample_settings ''eur'' = Some ''IT00 0000 0000 0000 0000 00''"
    by (simp add: sample_settings_def)
  have lines: "invoice_header sample_settings \<noteq> []" "invoice_footer sample_settings \<noteq> []"
    by (simp_all add: sample_settings_def)
  have dir: "os_path_exists (ledger []) (output_directory sample_settings)"
    by (simp add: os_path_exists_def ledger_def sample_settings_def)
  show ?thesis
    using unknown_currency [OF lines(1), of sample_library
        "(acme_invoice 1)\<lparr>invoice_currency := ''USD''\<rparr>" "ledger []"]
      unknown_currency [OF lines(1), of sample_library "acme_invoice 1" "ledger []"]
    by (auto simp: usd eur cur missing found dir lines)
qed

text \<open>
  Claim C6, as stated: the name is the number, an underscore and the normalized customer
  name, and the extension is appended by the rendering collaborator. The name that
  \<^verbatim>\<open>output_pdf\<close> hands to \<^verbatim>\<open>SimpleDocTemplate\<close> already ends in \<^verbatim>\<open>.pdf\<close>: the code
  appends the extension itself, in the expression that builds the name.
\<close>

theorem extension_in_name_counterexample:
  "map_sum id fst (output_pdf (ledger []) sample_library (acme_invoice 1) sample_settings) =
     Inr ''out/1_acme_corp.pdf'' \<and>
   map_sum id fst (output_pdf (ledger []) sample_library (acme_invoice 1) sample_settings) \<noteq>
     Inr (output_directory sample_settings @ ''/'' @
          artifact_base_name sample_library 1 ''Acme Corp'')"
  by code_simp

text \<open>
  Claim C6, amended. The file name is the output directory, a slash, the base name (the
  number, an underscore, the customer name lowercased with each space replaced by an
  underscore) and the extension \<^verbatim>\<open>.pdf\<close>, all put together by \<^verbatim>\<open>output_pdf\<close>; that is the
  name under which the document is written. The code replaces the spaces before it
  lowercases; the two orders agree for a lowercasing that commutes with the replacement,
  as Python's does, a space and an underscore being neither cased nor ignored by it.
\<close>

theorem artifact_name:
  assumes "\<forall>s. str_lower lib (replace_space s) = replace_space (str_lower lib s)"
  shows "pdf_file_name lib invoice settings =
           output_directory settings @ ''/'' @
           artifact_base_name lib (invoice_number invoice) (customer_name invoice) @ ''.pdf'' \<and>
         (\<forall>name els. output_pdf env lib invoice settings = Inr (name, els) \<longrightarrow>
            name = output_directory settings @ ''/'' @
              artifact_base_name lib (invoice_number invoice) (customer_name invoice) @ ''.pdf'')"
  using assms
  by (auto simp: pdf_file_name_def artifact_base_name_def output_pdf_def
      split: if_splits sum.splits)

text \<open>The customer \<^verbatim>\<open>Acme Corp\<close> with number 1 gives \<^verbatim>\<open>1_acme_corp\<close>.\<close>

theorem artifact_name_witness:
  "artifact_base_name sample_library 1 ''Acme Corp'' = ''1_acme_corp'' \<and>
   map_sum id fst (output_pdf (ledger []) sample_library (acme_invoice 1) sample_settings) =
     Inr ''out/1_acme_corp.pdf''"
proof -
  have comm: "\<forall>s. str_lower sample_library (replace_space s) =
      replace_space (str_lower sample_library s)"
    by (simp add: sample_library_def sample_lower_replace_space)
  have base: "artifact_base_name sample_library 1 ''Acme Corp'' = ''1_acme_corp''" by code_simp
  have out: "map_sum id fst (output_pdf (ledger []) sample_library (acme_invoice 1) sample_settings) =
      Inr (pdf_file_name sample_library (acme_invoice 1) sample_settings)"
    by code_simp
  have fields: "invoice_number (acme_invoice 1) = 1" "customer_name (acme_invoice 1) = ''Acme Corp''"
    "output_directory sample_settings = ''out''"
    by (simp_all add: acme_invoice_def sample_settings_def)
  show ?thesis
    using artifact_name [OF comm, of "acme_invoice 1" sample_settings "ledger []"]
    by (simp add: base out fields)
qed

text \<open>
  Claim C8. Composition is deterministic. Of its surroundings \<^verbatim>\<open>output_pdf\<close> reads only
  whether the output directory exists; in any two surroundings where it does, whatever the
  entries of the directory and the dates, the result is the same, and its flowables are
  \<open>elements\<close>, a function of the invoice and the settings.
\<close>

theorem compose_deterministic:
  fixes invoice :: "('a::{zero,plus,times}) Invoice"
  assumes "os_path_exists env (output_directory settings)"
    and "os_path_exists env' (output_directory settings)"
  shows "output_pdf env lib invoice settings = output_pdf env' lib invoice settings \<and>
         map_sum id snd (output_pdf env lib invoice settings) = elements lib invoice settings"
  using assms by (simp add: output_pdf_def split: sum.splits)

text \<open>A second call, after the first has written its file and the date has changed.\<close>

theorem compose_deterministic_witness:
  "output_pdf (ledger []) sample_library (acme_invoice 1) sample_settings =
   output_pdf ((ledger [''1_acme_corp.pdf''])\<lparr>now_date := ''03/03/2024''\<rparr>) sample_library
     (acme_invoice 1) sample_settings"
proof -
  have a: "os_path_exists (ledger []) (output_directory sample_settings)"
    by (simp add: os_path_exists_def ledger_def sample_settings_def)
  have b: "os_path_exists ((ledger [''1_acme_corp.pdf''])\<lparr>now_date := ''03/03/2024''\<rparr>)
      (output_directory sample_settings)"
    by (simp add: os_path_exists_def ledger_def sample_settings_def)
  show ?thesis
    using compose_deterministic [OF a b, of sample_library "acme_invoice 1"] by simp
qed

end
